theory Spec2Isabelle
  imports Complex_Main
begin

section \<open>Tag statistics of the fine-tuner panel\<close>

text \<open>
  The panel reads two raw tag counts from a dictionary and the dataset's sample count,
  and derives four display counts. A count that is missing (or zero) reads as 0 through
  the source's \<^verbatim>\<open>x || 0\<close>. Counts are sample counts, modelled as unbounded
  integers.
\<close>

record TagStats =
  train_count :: int
  val_count :: int
  both_count :: int
  total_count :: int
  untagged_count :: int

fun or_zero :: "int option \<Rightarrow> int" where
  "or_zero None = 0"
| "or_zero (Some n) = n"

definition tagStats :: "(string \<rightharpoonup> int) \<Rightarrow> int option \<Rightarrow> TagStats" where
  "tagStats tagCounts totalSampleCount =
     (let trainCount = or_zero (tagCounts ''train'');
          valCount = or_zero (tagCounts ''val'');
          totalCount = or_zero totalSampleCount;
          bothCount = max 0 (trainCount + valCount - totalCount);
          trainOnlyCount = trainCount - bothCount;
          valOnlyCount = valCount - bothCount;
          taggedCount = trainOnlyCount + valOnlyCount + bothCount;
          untaggedCount = max 0 (totalCount - taggedCount)
      in \<lparr> train_count = trainOnlyCount,
           val_count = valOnlyCount,
           both_count = bothCount,
           total_count = totalCount,
           untagged_count = untaggedCount \<rparr>)"

subsection \<open>Display ratios\<close>

text \<open>
  A JavaScript division never raises; dividing by zero yields an infinity or NaN. The
  model keeps that outcome apart from an ordinary number, so that a ratio which divided
  by zero is visible in its value.
\<close>

datatype jsnum = Num real | NonFinite

definition js_divide :: "int \<Rightarrow> int \<Rightarrow> jsnum" where
  "js_divide a b = (if b = 0 then NonFinite else Num (real_of_int a / real_of_int b))"

fun js_times :: "jsnum \<Rightarrow> real \<Rightarrow> jsnum" where
  "js_times (Num x) k = Num (x * k)"
| "js_times NonFinite k = NonFinite"

definition trainRatio :: "TagStats \<Rightarrow> jsnum" where
  "trainRatio st =
     (if total_count st > 0 then js_times (js_divide (train_count st) (total_count st)) 100
      else Num 0)"

definition valRatio :: "TagStats \<Rightarrow> jsnum" where
  "valRatio st =
     (if total_count st > 0 then js_times (js_divide (val_count st) (total_count st)) 100
      else Num 0)"

definition bothRatio :: "TagStats \<Rightarrow> jsnum" where
  "bothRatio st =
     (if total_count st > 0 then js_times (js_divide (both_count st) (total_count st)) 100
      else Num 0)"

definition untaggedRatio :: "TagStats \<Rightarrow> jsnum" where
  "untaggedRatio st =
     (if total_count st > 0 then js_times (js_divide (untagged_count st) (total_count st)) 100
      else Num 0)"

subsection \<open>Readiness and the Start Training button\<close>

definition isReadyToTrain :: "TagStats \<Rightarrow> bool" where
  "isReadyToTrain st =
     ((train_count st > 0 \<or> both_count st > 0) \<and> (val_count st > 0 \<or> both_count st > 0))"

definition trainDisabled :: "bool \<Rightarrow> TagStats \<Rightarrow> bool" where
  "trainDisabled training st = (training \<or> \<not> isReadyToTrain st)"

section \<open>View filter stages\<close>

text \<open>
  A stage descriptor carries a class name and a list of keyword arguments; an argument
  value is a list of tags or a boolean. The handler hands the list of stages to the
  view-state setter; the model returns that list.
\<close>

datatype kwarg = TagList "string list" | Flag bool

record stage =
  cls :: string
  kwargs :: "(string \<times> kwarg) list"

definition handleFilterByTag :: "string option \<Rightarrow> stage list" where
  "handleFilterByTag tag =
     (case tag of
        None \<Rightarrow> []
      | Some t \<Rightarrow>
          if t = ''untagged'' then
            [\<lparr> cls = ''fiftyone.core.stages.MatchTags'',
               kwargs = [(''tags'', TagList [''train'', ''val'']), (''bool'', Flag False)] \<rparr>]
          else if t = ''both'' then
            [\<lparr> cls = ''fiftyone.core.stages.MatchTags'',
               kwargs = [(''tags'', TagList [''train''])] \<rparr>,
             \<lparr> cls = ''fiftyone.core.stages.MatchTags'',
               kwargs = [(''tags'', TagList [''val''])] \<rparr>]
          else
            [\<lparr> cls = ''fiftyone.core.stages.MatchTags'',
               kwargs = [(''tags'', TagList [t])] \<rparr>])"

section \<open>Job outcome handling of the fine-tuner panel\<close>

text \<open>
  The panel keeps a pending flag for each of its two buttons and one shared success
  overlay with a message and a countdown. The host's execution button calls the panel
  back when the user picks an execution option, when the execution succeeds and when it
  fails. A delegated success shows the overlay and starts an interval whose callback
  owns a local counter. The running intervals (handle and counter of the callback) and
  the console output are part of the modelled state.
\<close>

record ExecutionOption =
  isDelegated :: bool

text \<open>
  A response is read through \<^verbatim>\<open>response?.delegated\<close> and
  \<^verbatim>\<open>response?.result?.id?.$oid\<close>; an absent response is \<open>None\<close>.
\<close>

record response =
  delegated :: bool
  oid :: "string option"

datatype console_arg =
  Text string | ResponseArg "response option" | OidArg "string option" | ErrorArg string

datatype console_entry = ConsoleLog "console_arg list" | ConsoleError "console_arg list"

record panel =
  isTraining :: bool
  isApplying :: bool
  showSuccessOverlay :: bool
  successMessage :: string
  countdown :: int
  intervals :: "(nat \<times> int) list"
  nextInterval :: nat
  console :: "console_entry list"

definition panel_init :: panel where
  "panel_init =
     \<lparr> isTraining = False, isApplying = False, showSuccessOverlay = False,
       successMessage = '''', countdown = 5, intervals = [], nextInterval = 1,
       console = [] \<rparr>"

definition console_log :: "console_arg list \<Rightarrow> panel \<Rightarrow> panel" where
  "console_log args s = s\<lparr>console := console s @ [ConsoleLog args]\<rparr>"

definition console_error :: "console_arg list \<Rightarrow> panel \<Rightarrow> panel" where
  "console_error args s = s\<lparr>console := console s @ [ConsoleError args]\<rparr>"

definition is_delegated :: "response option \<Rightarrow> bool" where
  "is_delegated resp = (case resp of None \<Rightarrow> False | Some r \<Rightarrow> delegated r)"

definition response_oid :: "response option \<Rightarrow> string option" where
  "response_oid resp = (case resp of None \<Rightarrow> None | Some r \<Rightarrow> oid r)"

text \<open>
  \<^verbatim>\<open>let count = 5; const countdownInterval = setInterval(..., 1000)\<close>: a new
  interval with a fresh handle, whose callback starts with the counter at 5.
\<close>

definition setInterval :: "int \<Rightarrow> panel \<Rightarrow> panel" where
  "setInterval count s =
     s\<lparr>intervals := intervals s @ [(nextInterval s, count)],
       nextInterval := nextInterval s + 1\<rparr>"

definition clearInterval :: "nat \<Rightarrow> panel \<Rightarrow> panel" where
  "clearInterval h s = s\<lparr>intervals := filter (\<lambda>(i, c). i \<noteq> h) (intervals s)\<rparr>"

definition handleTrainStart :: "ExecutionOption \<Rightarrow> panel \<Rightarrow> panel" where
  "handleTrainStart option s =
     console_log
       [Text (''Training started with ''
              @ (if isDelegated option then ''delegated'' else ''immediate'') @ '' execution'')]
       (s\<lparr>isTraining := True\<rparr>)"

definition handleTrainSuccess :: "response option \<Rightarrow> panel \<Rightarrow> panel" where
  "handleTrainSuccess resp s =
     (let s1 = (console_log [Text ''Training completed successfully'', ResponseArg resp] s)
                 \<lparr>isTraining := False\<rparr>
      in if is_delegated resp then
           (let operatorId = response_oid resp;
                s2 = console_log [Text ''Training delegated with operation ID:'', OidArg operatorId] s1;
                s3 = s2\<lparr>successMessage := ''Training successfully scheduled!'',
                        showSuccessOverlay := True, countdown := 5\<rparr>
            in setInterval 5 s3)
         else console_log [Text ''Training completed immediately''] s1)"

definition handleTrainError :: "string \<Rightarrow> panel \<Rightarrow> panel" where
  "handleTrainError error s =
     (console_error [Text ''Training failed:'', ErrorArg error] s)\<lparr>isTraining := False\<rparr>"

definition handleApplyStart :: "ExecutionOption \<Rightarrow> panel \<Rightarrow> panel" where
  "handleApplyStart option s =
     console_log
       [Text (''Model application started with ''
              @ (if isDelegated option then ''delegated'' else ''immediate'') @ '' execution'')]
       (s\<lparr>isApplying := True\<rparr>)"

definition handleApplySuccess :: "response option \<Rightarrow> panel \<Rightarrow> panel" where
  "handleApplySuccess resp s =
     (let s1 = (console_log [Text ''Model application completed successfully'', ResponseArg resp] s)
                 \<lparr>isApplying := False\<rparr>
      in if is_delegated resp then
           (let operatorId = response_oid resp;
                s2 = console_log
                       [Text ''Model application delegated with operation ID:'', OidArg operatorId] s1;
                s3 = s2\<lparr>successMessage := ''Model application successfully scheduled!'',
                        showSuccessOverlay := True, countdown := 5\<rparr>
            in setInterval 5 s3)
         else console_log [Text ''Model application completed immediately''] s1)"

definition handleApplyError :: "string \<Rightarrow> panel \<Rightarrow> panel" where
  "handleApplyError error s =
     (console_error [Text ''Model application failed:'', ErrorArg error] s)\<lparr>isApplying := False\<rparr>"

text \<open>
  The interval callback of handle \<open>h\<close>: \<^verbatim>\<open>count--; setCountdown(count);
  if (count === 0) { clearInterval(countdownInterval); setShowSuccessOverlay(false); }\<close>.
  A handle that is not running (cleared, or never set) has no callback to run.
\<close>

definition countdownTick :: "nat \<Rightarrow> panel \<Rightarrow> panel" where
  "countdownTick h s =
     (case map_of (intervals s) h of
        None \<Rightarrow> s
      | Some c \<Rightarrow>
          (let count = c - 1;
               s1 = s\<lparr>intervals := map (\<lambda>(i, c'). if i = h then (i, count) else (i, c')) (intervals s),
                       countdown := count\<rparr>
           in if count = 0 then (clearInterval h s1)\<lparr>showSuccessOverlay := False\<rparr> else s1))"

text \<open>
  What can happen to the panel: the three callbacks of each button, the firing of an
  interval, and a click on the success overlay. The overlay and the container around it
  register no click handler, so such a click changes nothing.
\<close>

datatype event =
  TrainStart ExecutionOption | TrainSuccess "response option" | TrainError string
| ApplyStart ExecutionOption | ApplySuccess "response option" | ApplyError string
| IntervalFires nat | OverlayClicked

fun step :: "event \<Rightarrow> panel \<Rightarrow> panel" where
  "step (TrainStart option) s = handleTrainStart option s"
| "step (TrainSuccess resp) s = handleTrainSuccess resp s"
| "step (TrainError error) s = handleTrainError error s"
| "step (ApplyStart option) s = handleApplyStart option s"
| "step (ApplySuccess resp) s = handleApplySuccess resp s"
| "step (ApplyError error) s = handleApplyError error s"
| "step (IntervalFires h) s = countdownTick h s"
| "step OverlayClicked s = s"

fun run :: "event list \<Rightarrow> panel \<Rightarrow> panel" where
  "run [] s = s"
| "run (e # es) s = run es (step e s)"

definition applyDisabled :: "panel \<Rightarrow> bool" where
  "applyDisabled s = isApplying s"

text \<open>
  A success event that starts a countdown: a success callback whose response is delegated.
\<close>

fun delegatedSuccess :: "event \<Rightarrow> bool" where
  "delegatedSuccess (TrainSuccess resp) = is_delegated resp"
| "delegatedSuccess (ApplySuccess resp) = is_delegated resp"
| "delegatedSuccess e = False"

text \<open>
  The callbacks the panel hands to a button wrapper; each is optional in the wrapper's
  props. The Start Training button gets the three training handlers, the Apply Model
  button the three apply handlers.
\<close>

record buttonProps =
  onOptionSelected :: "(ExecutionOption \<Rightarrow> panel \<Rightarrow> panel) option"
  onSuccess :: "(response option \<Rightarrow> panel \<Rightarrow> panel) option"
  onError :: "(string \<Rightarrow> panel \<Rightarrow> panel) option"

definition trainButton :: buttonProps where
  "trainButton =
     \<lparr> onOptionSelected = Some handleTrainStart, onSuccess = Some handleTrainSuccess,
       onError = Some handleTrainError \<rparr>"

definition applyButton :: buttonProps where
  "applyButton =
     \<lparr> onOptionSelected = Some handleApplyStart, onSuccess = Some handleApplySuccess,
       onError = Some handleApplyError \<rparr>"

section \<open>Menu check of the operator button wrapper\<close>

text \<open>
  The wrapper keeps two pieces of React state (the warning flag and the checking flag)
  and a ref holding the handle of the scheduled check. Its effect depends on the
  checking flag only: the effect body runs after a render in which the flag changed, and
  the cleanup returned by the previous run is executed first. Setting a state to the value
  it already has causes no render, so the effect does not run. The model carries the
  pending timeouts (handle, callback, delay in milliseconds), the next free handle, the
  stop handle captured by the cleanup of the last effect run (\<open>None\<close> when that run
  returned early and registered no cleanup), and the number of simulated backdrop clicks.
  Timer handles are positive, so a handle stored in the ref is truthy and \<open>None\<close> stands
  for the ref being null. The clock is not modelled: which pending timeout fires next,
  and what is rendered at that moment, is chosen by the environment. The state updates
  made while one handler or timer callback runs are applied together (React 18), so the
  effect sees only the value of the checking flag before and after the callback.
\<close>

text \<open>
  What a check sees of a rendered popover or presentation element: its bounding
  rectangle, the number of menu items under it, and whether it has a backdrop.
\<close>

record menu =
  rectWidth :: real
  rectHeight :: real
  menuItems :: nat
  hasBackdrop :: bool

datatype callback = CheckForEmptyMenu | StopChecking

record probe =
  showNoTargetsWarning :: bool
  isCheckingMenu :: bool
  checkTimeoutRef :: "nat option"
  timeouts :: "(nat \<times> callback \<times> nat) list"
  nextTimeout :: nat
  cleanupStop :: "nat option"
  backdropClicks :: nat

definition probe_init :: probe where
  "probe_init =
     \<lparr> showNoTargetsWarning = False, isCheckingMenu = False, checkTimeoutRef = None,
       timeouts = [], nextTimeout = 1, cleanupStop = None, backdropClicks = 0 \<rparr>"

definition setTimeout :: "callback \<Rightarrow> nat \<Rightarrow> probe \<Rightarrow> nat \<times> probe" where
  "setTimeout cb delay s =
     (nextTimeout s,
      s\<lparr>timeouts := timeouts s @ [(nextTimeout s, cb, delay)], nextTimeout := nextTimeout s + 1\<rparr>)"

definition clearTimeout :: "nat \<Rightarrow> probe \<Rightarrow> probe" where
  "clearTimeout h s = s\<lparr>timeouts := filter (\<lambda>(i, cb, d). i \<noteq> h) (timeouts s)\<rparr>"

text \<open>
  The loop over the menus returns at the first one that is visible, in both branches;
  menus with an empty rectangle are skipped.
\<close>

fun firstVisible :: "menu list \<Rightarrow> menu option" where
  "firstVisible [] = None"
| "firstVisible (m # ms) =
     (if rectWidth m > 0 \<and> rectHeight m > 0 then Some m else firstVisible ms)"

text \<open>
  The click handler of the wrapper's own element:
  \<^verbatim>\<open>if (!disabled) { setIsCheckingMenu(true); }\<close>.
\<close>

definition handleWrapperClick :: "bool \<Rightarrow> probe \<Rightarrow> probe" where
  "handleWrapperClick disabled s = (if \<not> disabled then s\<lparr>isCheckingMenu := True\<rparr> else s)"

text \<open>
  The check closes an empty menu by a click on its backdrop. The menu is rendered by the
  host button, a child of the wrapper's element, so this click bubbles through the React
  tree to the wrapper's click handler, which runs inside the same timer callback, after
  the warning is set and the checking flag is cleared.
\<close>

definition checkForEmptyMenu :: "bool \<Rightarrow> menu list \<Rightarrow> probe \<Rightarrow> probe" where
  "checkForEmptyMenu disabled menus s =
     (case firstVisible menus of
        Some m \<Rightarrow>
          if menuItems m = 0 then
            (let s1 = s\<lparr>showNoTargetsWarning := True, isCheckingMenu := False\<rparr>
             in if hasBackdrop m
                then handleWrapperClick disabled (s1\<lparr>backdropClicks := backdropClicks s1 + 1\<rparr>)
                else s1)
          else s\<lparr>isCheckingMenu := False\<rparr>
      | None \<Rightarrow>
          (case checkTimeoutRef s of
             None \<Rightarrow> s
           | Some current \<Rightarrow>
               (let (h, s1) = setTimeout CheckForEmptyMenu 50 s
                in s1\<lparr>checkTimeoutRef := Some h\<rparr>)))"

definition stopChecking :: "probe \<Rightarrow> probe" where
  "stopChecking s =
     (let s1 = s\<lparr>isCheckingMenu := False\<rparr>
      in case checkTimeoutRef s1 of
           None \<Rightarrow> s1
         | Some current \<Rightarrow> (clearTimeout current s1)\<lparr>checkTimeoutRef := None\<rparr>)"

definition menuCheckEffect :: "probe \<Rightarrow> probe" where
  "menuCheckEffect s =
     (if \<not> isCheckingMenu s then s\<lparr>cleanupStop := None\<rparr>
      else
        (let (h, s1) = setTimeout CheckForEmptyMenu 100 s;
             s2 = s1\<lparr>checkTimeoutRef := Some h\<rparr>;
             (stopTimeout, s3) = setTimeout StopChecking 500 s2
         in s3\<lparr>cleanupStop := Some stopTimeout\<rparr>))"

definition effectCleanup :: "probe \<Rightarrow> probe" where
  "effectCleanup s =
     (case cleanupStop s of
        None \<Rightarrow> s
      | Some stopTimeout \<Rightarrow>
          (let s1 = (case checkTimeoutRef s of
                       None \<Rightarrow> s
                     | Some current \<Rightarrow> clearTimeout current s)
           in (clearTimeout stopTimeout s1)\<lparr>cleanupStop := None\<rparr>))"

text \<open>
  After a handler or timer callback has run: when the checking flag differs from its
  value before, the component renders again, the previous cleanup runs and then the
  effect body; otherwise nothing more happens.
\<close>

definition rerender :: "bool \<Rightarrow> probe \<Rightarrow> probe" where
  "rerender before s =
     (if isCheckingMenu s = before then s else menuCheckEffect (effectCleanup s))"

text \<open>A user's click on the button: the wrapper's click handler, then the render.\<close>

definition wrapperClicked :: "bool \<Rightarrow> probe \<Rightarrow> probe" where
  "wrapperClicked disabled s = rerender (isCheckingMenu s) (handleWrapperClick disabled s)"

text \<open>
  The wrapper's option-selected callback hides the warning and then calls the panel's
  callback, when one was given. It acts on the wrapper's state and on the panel's.
\<close>

definition handleOptionSelected ::
  "buttonProps \<Rightarrow> ExecutionOption \<Rightarrow> probe \<times> panel \<Rightarrow> probe \<times> panel" where
  "handleOptionSelected props option ws =
     (case ws of
        (w, s) \<Rightarrow>
          (w\<lparr>showNoTargetsWarning := False\<rparr>,
           (case onOptionSelected props of None \<Rightarrow> s | Some f \<Rightarrow> f option s)))"

text \<open>
  A pending timeout fires once: it leaves the pending list and its callback runs on the
  menus rendered at that moment. A handle that is not pending (cleared, or already
  fired) runs nothing.
\<close>

definition timeoutFires :: "nat \<Rightarrow> bool \<Rightarrow> menu list \<Rightarrow> probe \<Rightarrow> probe" where
  "timeoutFires h disabled menus s =
     (case map_of (timeouts s) h of
        None \<Rightarrow> s
      | Some (cb, delay) \<Rightarrow>
          rerender (isCheckingMenu s)
            (case cb of
               CheckForEmptyMenu \<Rightarrow> checkForEmptyMenu disabled menus (clearTimeout h s)
             | StopChecking \<Rightarrow> stopChecking (clearTimeout h s)))"

text \<open>The states the wrapper can be in after mounting.\<close>

inductive reachable :: "probe \<Rightarrow> bool" where
  mounted: "reachable probe_init"
| click: "reachable s \<Longrightarrow> reachable (wrapperClicked disabled s)"
| fires: "reachable s \<Longrightarrow> reachable (timeoutFires h disabled menus s)"
| option: "reachable s \<Longrightarrow> reachable (fst (handleOptionSelected props option (s, p)))"

text \<open>
  Every pending timeout belongs to the poll in progress: it is the stop timeout captured
  by the current cleanup, or the check whose handle is in the ref. When no poll is in
  progress nothing is pending and no cleanup is registered.
\<close>

definition timers_owned :: "probe \<Rightarrow> bool" where
  "timers_owned s =
     (if isCheckingMenu s then
        (case cleanupStop s of
           None \<Rightarrow> False
         | Some stopTimeout \<Rightarrow>
             list_all (\<lambda>(i, cb, d).
                 (cb = StopChecking \<and> i = stopTimeout)
                 \<or> (cb = CheckForEmptyMenu \<and> checkTimeoutRef s = Some i)) (timeouts s))
      else timeouts s = [] \<and> cleanupStop s = None)"

section \<open>The host's execution button\<close>

text \<open>
  Modelled from the spec: the outcome of a submission to the execution provider (data
  model, ExecutionOutcome): immediate with a result, delegated with a job reference, or
  an error with its payload. The provider and the host's execution button that calls it
  are not among the sources; of a result only the job identifier is kept, which is all
  the panel reads.
\<close>

datatype outcome = Immediate "string option" | Delegated "string option" | Failure string

text \<open>
  Modelled from the spec: a call the host's execution button makes to one of the three
  callbacks it was given.
\<close>

datatype call =
  CallOptionSelected ExecutionOption | CallSuccess "response option" | CallError string

text \<open>
  Modelled from the spec: what the host's execution button does with one submission
  (sections 4.4 and 4.5). The user picks an execution option before the provider is
  invoked, which is reported through the option-selected callback; then the provider's
  outcome is relayed: an immediate outcome through the success callback with delegated
  false, a delegated outcome through the success callback with delegated true and the job
  reference, an error through the error callback with the error payload. There is no
  automatic retry.
\<close>

definition hostSubmit :: "ExecutionOption \<Rightarrow> outcome \<Rightarrow> call list" where
  "hostSubmit option out =
     [CallOptionSelected option,
      (case out of
         Immediate result \<Rightarrow> CallSuccess (Some \<lparr> delegated = False, oid = result \<rparr>)
       | Delegated job \<Rightarrow> CallSuccess (Some \<lparr> delegated = True, oid = job \<rparr>)
       | Failure error \<Rightarrow> CallError error)]"

text \<open>
  The props the wrapper gives to the host's button: its own option-selected callback, and
  the success and error callbacks it received, passed on unchanged. A call of the host
  therefore runs the following on the wrapper's and the panel's state.
\<close>

fun invoke :: "buttonProps \<Rightarrow> call \<Rightarrow> probe \<times> panel \<Rightarrow> probe \<times> panel" where
  "invoke props (CallOptionSelected option) ws = handleOptionSelected props option ws"
| "invoke props (CallSuccess resp) ws =
     (fst ws, (case onSuccess props of None \<Rightarrow> snd ws | Some f \<Rightarrow> f resp (snd ws)))"
| "invoke props (CallError error) ws =
     (fst ws, (case onError props of None \<Rightarrow> snd ws | Some f \<Rightarrow> f error (snd ws)))"

fun deliver :: "buttonProps \<Rightarrow> call list \<Rightarrow> probe \<times> panel \<Rightarrow> probe \<times> panel" where
  "deliver props [] ws = ws"
| "deliver props (c # cs) ws = deliver props cs (invoke props c ws)"

fun isErrorCall :: "call \<Rightarrow> bool" where
  "isErrorCall (CallError error) = True"
| "isErrorCall c = False"

section \<open>Properties of the tag statistics\<close>

lemma tagStats_fields:
  "train_count (tagStats tagCounts totalSampleCount) =
     or_zero (tagCounts ''train'')
       - max 0 (or_zero (tagCounts ''train'') + or_zero (tagCounts ''val'') - or_zero totalSampleCount)"
  "val_count (tagStats tagCounts totalSampleCount) =
     or_zero (tagCounts ''val'')
       - max 0 (or_zero (tagCounts ''train'') + or_zero (tagCounts ''val'') - or_zero totalSampleCount)"
  "both_count (tagStats tagCounts totalSampleCount) =
     max 0 (or_zero (tagCounts ''train'') + or_zero (tagCounts ''val'') - or_zero totalSampleCount)"
  "total_count (tagStats tagCounts totalSampleCount) = or_zero totalSampleCount"
  "untagged_count (tagStats tagCounts totalSampleCount) =
     max 0 (or_zero totalSampleCount - or_zero (tagCounts ''train'') - or_zero (tagCounts ''val'')
       + max 0 (or_zero (tagCounts ''train'') + or_zero (tagCounts ''val'') - or_zero totalSampleCount))"
  by (simp_all add: tagStats_def Let_def)

lemma ratio_value:
  "(if (t::int) > 0 then js_times (js_divide c t) 100 else Num 0) =
     Num (if t > 0 then real_of_int c / real_of_int t * 100 else 0)"
  by (simp add: js_divide_def)

text \<open>
  Claim C1. When the raw counts are consistent, that is \<open>0 \<le> train \<le> total\<close> and
  \<open>0 \<le> val \<le> total\<close>, the four derived counts (train only, val only, both, untagged) add
  up to the total, and each of them is non-negative.
\<close>

theorem tagStats_partition:
  assumes "or_zero (tagCounts ''train'') = train"
    and "or_zero (tagCounts ''val'') = val"
    and "or_zero totalSampleCount = tot"
    and "0 \<le> train" and "train \<le> tot" and "0 \<le> val" and "val \<le> tot"
  shows "train_count (tagStats tagCounts totalSampleCount)
           + val_count (tagStats tagCounts totalSampleCount)
           + both_count (tagStats tagCounts totalSampleCount)
           + untagged_count (tagStats tagCounts totalSampleCount) = tot
         \<and> 0 \<le> train_count (tagStats tagCounts totalSampleCount)
         \<and> 0 \<le> val_count (tagStats tagCounts totalSampleCount)
         \<and> 0 \<le> both_count (tagStats tagCounts totalSampleCount)
         \<and> 0 \<le> untagged_count (tagStats tagCounts totalSampleCount)"
  using assms by (simp add: tagStats_fields max_def)

theorem tagStats_partition_witness:
  "train_count (tagStats [''train'' \<mapsto> 60, ''val'' \<mapsto> 60] (Some 100))
     + val_count (tagStats [''train'' \<mapsto> 60, ''val'' \<mapsto> 60] (Some 100))
     + both_count (tagStats [''train'' \<mapsto> 60, ''val'' \<mapsto> 60] (Some 100))
     + untagged_count (tagStats [''train'' \<mapsto> 60, ''val'' \<mapsto> 60] (Some 100)) = 100
   \<and> 0 \<le> train_count (tagStats [''train'' \<mapsto> 60, ''val'' \<mapsto> 60] (Some 100))
   \<and> 0 \<le> val_count (tagStats [''train'' \<mapsto> 60, ''val'' \<mapsto> 60] (Some 100))
   \<and> both_count (tagStats [''train'' \<mapsto> 60, ''val'' \<mapsto> 60] (Some 100)) = 20
   \<and> untagged_count (tagStats [''train'' \<mapsto> 60, ''val'' \<mapsto> 60] (Some 100)) = 0"
  using tagStats_partition [of "[''train'' \<mapsto> 60, ''val'' \<mapsto> 60]" 60 60 "Some 100" 100]
  by (simp add: tagStats_fields)

text \<open>
  Claim C2, as stated: on inconsistent non-negative counts every derived count is still
  non-negative. It fails: with train = 10, val = 0 and total = 5 the overlap is inferred
  as 5 and the val-only count is \<open>0 - 5\<close>.
\<close>

theorem tagStats_inconsistent_counterexample:
  "val_count (tagStats [''train'' \<mapsto> 10, ''val'' \<mapsto> 0] (Some 5)) = - 5
   \<and> val_count (tagStats [''train'' \<mapsto> 10, ''val'' \<mapsto> 0] (Some 5)) < 0"
  by (simp add: tagStats_fields)

text \<open>
  Claim C2, amended. For all non-negative train, val and total, consistent or not, the
  computation returns a result in which the overlap and the untagged count are
  non-negative; the train-only count is non-negative exactly when \<open>val \<le> total\<close>, and
  the val-only count exactly when \<open>train \<le> total\<close>. These two are not clamped.
\<close>

theorem tagStats_nonneg_outputs:
  assumes "or_zero (tagCounts ''train'') = train"
    and "or_zero (tagCounts ''val'') = val"
    and "or_zero totalSampleCount = tot"
    and "0 \<le> train" and "0 \<le> val" and "0 \<le> tot"
  shows "0 \<le> both_count (tagStats tagCounts totalSampleCount)
         \<and> 0 \<le> untagged_count (tagStats tagCounts totalSampleCount)
         \<and> (0 \<le> train_count (tagStats tagCounts totalSampleCount) \<longleftrightarrow> val \<le> tot)
         \<and> (0 \<le> val_count (tagStats tagCounts totalSampleCount) \<longleftrightarrow> train \<le> tot)"
  using assms by (simp add: tagStats_fields max_def)

theorem tagStats_nonneg_outputs_witness:
  "0 \<le> both_count (tagStats [''train'' \<mapsto> 7, ''val'' \<mapsto> 1] (Some 4))
   \<and> 0 \<le> untagged_count (tagStats [''train'' \<mapsto> 7, ''val'' \<mapsto> 1] (Some 4))
   \<and> 0 \<le> train_count (tagStats [''train'' \<mapsto> 7, ''val'' \<mapsto> 1] (Some 4))
   \<and> \<not> 0 \<le> val_count (tagStats [''train'' \<mapsto> 7, ''val'' \<mapsto> 1] (Some 4))"
  using tagStats_nonneg_outputs [of "[''train'' \<mapsto> 7, ''val'' \<mapsto> 1]" 7 1 "Some 4" 4]
  by simp

text \<open>
  Claim C3, as stated: with a total of 0 all four derived counts are 0 for any
  non-negative train and val. It fails: with train = 3, val = 2 and total = 0 the result
  is train-only \<open>- 2\<close>, val-only \<open>- 3\<close>, both \<open>5\<close>, untagged \<open>0\<close>.
\<close>

theorem tagStats_zero_total_counterexample:
  "train_count (tagStats [''train'' \<mapsto> 3, ''val'' \<mapsto> 2] (Some 0)) = - 2
   \<and> val_count (tagStats [''train'' \<mapsto> 3, ''val'' \<mapsto> 2] (Some 0)) = - 3
   \<and> both_count (tagStats [''train'' \<mapsto> 3, ''val'' \<mapsto> 2] (Some 0)) = 5
   \<and> untagged_count (tagStats [''train'' \<mapsto> 3, ''val'' \<mapsto> 2] (Some 0)) = 0"
  by (simp add: tagStats_fields)

text \<open>
  Claim C3, amended. With a total of 0 and non-negative train and val, the untagged count
  is 0, the overlap is \<open>train + val\<close>, the train-only count is \<open>- val\<close> and the val-only
  count is \<open>- train\<close>; so the four counts are all 0 exactly when train and val are both 0.
  No division takes place: each of the four ratios is the number 0.
\<close>

theorem tagStats_zero_total:
  assumes "or_zero (tagCounts ''train'') = train"
    and "or_zero (tagCounts ''val'') = val"
    and "or_zero totalSampleCount = 0"
    and "0 \<le> train" and "0 \<le> val"
  shows "untagged_count (tagStats tagCounts totalSampleCount) = 0
         \<and> both_count (tagStats tagCounts totalSampleCount) = train + val
         \<and> train_count (tagStats tagCounts totalSampleCount) = - val
         \<and> val_count (tagStats tagCounts totalSampleCount) = - train
         \<and> ((train_count (tagStats tagCounts totalSampleCount) = 0
              \<and> val_count (tagStats tagCounts totalSampleCount) = 0
              \<and> both_count (tagStats tagCounts totalSampleCount) = 0
              \<and> untagged_count (tagStats tagCounts totalSampleCount) = 0)
             \<longleftrightarrow> (train = 0 \<and> val = 0))
         \<and> trainRatio (tagStats tagCounts totalSampleCount) = Num 0
         \<and> valRatio (tagStats tagCounts totalSampleCount) = Num 0
         \<and> bothRatio (tagStats tagCounts totalSampleCount) = Num 0
         \<and> untaggedRatio (tagStats tagCounts totalSampleCount) = Num 0"
  using assms
  by (auto simp add: tagStats_fields trainRatio_def valRatio_def bothRatio_def untaggedRatio_def)

theorem tagStats_zero_total_witness:
  "untagged_count (tagStats [''train'' \<mapsto> 4, ''val'' \<mapsto> 1] None) = 0
   \<and> both_count (tagStats [''train'' \<mapsto> 4, ''val'' \<mapsto> 1] None) = 5
   \<and> train_count (tagStats [''train'' \<mapsto> 4, ''val'' \<mapsto> 1] None) = - 1
   \<and> val_count (tagStats [''train'' \<mapsto> 4, ''val'' \<mapsto> 1] None) = - 4
   \<and> trainRatio (tagStats [''train'' \<mapsto> 4, ''val'' \<mapsto> 1] None) = Num 0"
  using tagStats_zero_total [of "[''train'' \<mapsto> 4, ''val'' \<mapsto> 1]" 4 1 None]
  by simp

text \<open>
  Claim C8. Each of the four display ratios is \<open>count / total * 100\<close> when the total is
  positive and the number 0 otherwise; none of them is ever the outcome of a division by
  zero.
\<close>

theorem ratios_never_divide_by_zero:
  "trainRatio st =
     Num (if total_count st > 0
          then real_of_int (train_count st) / real_of_int (total_count st) * 100 else 0)
   \<and> valRatio st =
     Num (if total_count st > 0
          then real_of_int (val_count st) / real_of_int (total_count st) * 100 else 0)
   \<and> bothRatio st =
     Num (if total_count st > 0
          then real_of_int (both_count st) / real_of_int (total_count st) * 100 else 0)
   \<and> untaggedRatio st =
     Num (if total_count st > 0
          then real_of_int (untagged_count st) / real_of_int (total_count st) * 100 else 0)
   \<and> trainRatio st \<noteq> NonFinite \<and> valRatio st \<noteq> NonFinite
   \<and> bothRatio st \<noteq> NonFinite \<and> untaggedRatio st \<noteq> NonFinite"
  by (simp add: trainRatio_def valRatio_def bothRatio_def untaggedRatio_def ratio_value)

text \<open>
  Claim C9. The Start Training button is enabled exactly when the stats satisfy
  (train-only > 0 or both > 0) and (val-only > 0 or both > 0) and no training is pending;
  with consistent raw counts that is exactly: some sample carries the train tag, some
  sample carries the val tag, and no training is pending.
\<close>

theorem training_enabled_iff:
  assumes "or_zero (tagCounts ''train'') = train"
    and "or_zero (tagCounts ''val'') = val"
    and "or_zero totalSampleCount = tot"
    and "0 \<le> train" and "train \<le> tot" and "0 \<le> val" and "val \<le> tot"
    and "st = tagStats tagCounts totalSampleCount"
  shows "(\<not> trainDisabled training st \<longleftrightarrow>
            ((train_count st > 0 \<or> both_count st > 0)
             \<and> (val_count st > 0 \<or> both_count st > 0) \<and> \<not> training))
         \<and> (isReadyToTrain st \<longleftrightarrow> (0 < train \<and> 0 < val))
         \<and> (\<not> trainDisabled training st \<longleftrightarrow> (0 < train \<and> 0 < val \<and> \<not> training))"
  using assms
  by (auto simp add: trainDisabled_def isReadyToTrain_def tagStats_fields max_def)

theorem training_enabled_iff_witness:
  "\<not> trainDisabled False (tagStats [''train'' \<mapsto> 80, ''val'' \<mapsto> 20] (Some 100))
   \<and> trainDisabled True (tagStats [''train'' \<mapsto> 80, ''val'' \<mapsto> 20] (Some 100))
   \<and> isReadyToTrain (tagStats [''train'' \<mapsto> 80, ''val'' \<mapsto> 20] (Some 100))"
  using training_enabled_iff [of "[''train'' \<mapsto> 80, ''val'' \<mapsto> 20]" 80 20 "Some 100" 100
      "tagStats [''train'' \<mapsto> 80, ''val'' \<mapsto> 20] (Some 100)" False]
    training_enabled_iff [of "[''train'' \<mapsto> 80, ''val'' \<mapsto> 20]" 80 20 "Some 100" 100
      "tagStats [''train'' \<mapsto> 80, ''val'' \<mapsto> 20] (Some 100)" True]
  by simp

text \<open>
  Claim C10. For all raw counts, consistent or not, train-only plus both is the raw train
  count and val-only plus both is the raw val count; hence train-only + val-only +
  2 * both = train + val.
\<close>

theorem tagStats_raw_totals:
  "train_count (tagStats tagCounts totalSampleCount) + both_count (tagStats tagCounts totalSampleCount)
     = or_zero (tagCounts ''train'')
   \<and> val_count (tagStats tagCounts totalSampleCount) + both_count (tagStats tagCounts totalSampleCount)
     = or_zero (tagCounts ''val'')
   \<and> train_count (tagStats tagCounts totalSampleCount) + val_count (tagStats tagCounts totalSampleCount)
       + 2 * both_count (tagStats tagCounts totalSampleCount)
     = or_zero (tagCounts ''train'') + or_zero (tagCounts ''val'')"
  by (simp add: tagStats_fields)

section \<open>Properties of the view filter\<close>

text \<open>
  Claim C4. The filter for "both" is exactly two stages, the first matching the tag train
  and the second matching the tag val; for no category (null) it is empty; for "untagged"
  it is one stage that excludes the tags train and val; for "train" and for "val" it is
  one stage that matches that tag alone, with no exclusion of the other tag.
\<close>

theorem handleFilterByTag_stages:
  "handleFilterByTag (Some ''both'') =
     [\<lparr> cls = ''fiftyone.core.stages.MatchTags'', kwargs = [(''tags'', TagList [''train''])] \<rparr>,
      \<lparr> cls = ''fiftyone.core.stages.MatchTags'', kwargs = [(''tags'', TagList [''val''])] \<rparr>]
   \<and> handleFilterByTag None = []
   \<and> handleFilterByTag (Some ''untagged'') =
     [\<lparr> cls = ''fiftyone.core.stages.MatchTags'',
        kwargs = [(''tags'', TagList [''train'', ''val'']), (''bool'', Flag False)] \<rparr>]
   \<and> handleFilterByTag (Some ''train'') =
     [\<lparr> cls = ''fiftyone.core.stages.MatchTags'', kwargs = [(''tags'', TagList [''train''])] \<rparr>]
   \<and> handleFilterByTag (Some ''val'') =
     [\<lparr> cls = ''fiftyone.core.stages.MatchTags'', kwargs = [(''tags'', TagList [''val''])] \<rparr>]"
  by (simp add: handleFilterByTag_def)

section \<open>Properties of the job outcome handling\<close>

lemma tick_idle: "intervals s = [] \<Longrightarrow> countdownTick h s = s"
  by (simp add: countdownTick_def)

lemma tick_running:
  assumes "intervals s = [(h, c)]" and "c \<noteq> 1"
  shows "intervals (countdownTick h s) = [(h, c - 1)]"
    and "countdown (countdownTick h s) = c - 1"
    and "showSuccessOverlay (countdownTick h s) = showSuccessOverlay s"
  using assms by (simp_all add: countdownTick_def Let_def)

lemma tick_last:
  assumes "intervals s = [(h, 1)]"
  shows "intervals (countdownTick h s) = []"
    and "countdown (countdownTick h s) = 0"
    and "showSuccessOverlay (countdownTick h s) = False"
  using assms by (simp_all add: countdownTick_def clearInterval_def Let_def)

lemma train_success_delegated:
  assumes "delegated r"
  shows "handleTrainSuccess (Some r) s =
     s\<lparr>isTraining := False, successMessage := ''Training successfully scheduled!'',
       showSuccessOverlay := True, countdown := 5,
       intervals := intervals s @ [(nextInterval s, 5)], nextInterval := nextInterval s + 1,
       console := console s @
         [ConsoleLog [Text ''Training completed successfully'', ResponseArg (Some r)],
          ConsoleLog [Text ''Training delegated with operation ID:'', OidArg (oid r)]]\<rparr>"
  using assms
  by (simp add: handleTrainSuccess_def is_delegated_def response_oid_def console_log_def
      setInterval_def Let_def)

lemma apply_success_delegated:
  assumes "delegated r"
  shows "handleApplySuccess (Some r) s =
     s\<lparr>isApplying := False, successMessage := ''Model application successfully scheduled!'',
       showSuccessOverlay := True, countdown := 5,
       intervals := intervals s @ [(nextInterval s, 5)], nextInterval := nextInterval s + 1,
       console := console s @
         [ConsoleLog [Text ''Model application completed successfully'', ResponseArg (Some r)],
          ConsoleLog [Text ''Model application delegated with operation ID:'', OidArg (oid r)]]\<rparr>"
  using assms
  by (simp add: handleApplySuccess_def is_delegated_def response_oid_def console_log_def
      setInterval_def Let_def)

text \<open>
  Claim C5, as stated, fails in two ways. There is no manual dismissal: after a delegated
  success a click on the overlay leaves it visible and the next tick still decrements the
  countdown. And the countdown is shared: when a second delegated success arrives while
  the interval of the first is still running (here after two ticks, with the countdown
  at 3), the countdown of the first goes back up to 5, the next tick takes the displayed
  countdown from 5 to 2, the overlay is hidden when the first interval reaches 0 although
  the second has ticked only twice, and the second interval keeps changing the countdown
  after the overlay is hidden.
\<close>

theorem notification_counterexample:
  "showSuccessOverlay
     (run [TrainStart \<lparr>isDelegated = True\<rparr>, TrainSuccess (Some \<lparr>delegated = True, oid = None\<rparr>),
           OverlayClicked] panel_init) = True
   \<and> countdown
     (run [TrainStart \<lparr>isDelegated = True\<rparr>, TrainSuccess (Some \<lparr>delegated = True, oid = None\<rparr>),
           OverlayClicked, IntervalFires 1] panel_init) = 4
   \<and> countdown
     (run [TrainSuccess (Some \<lparr>delegated = True, oid = None\<rparr>), IntervalFires 1, IntervalFires 1]
        panel_init) = 3
   \<and> countdown
     (run [TrainSuccess (Some \<lparr>delegated = True, oid = None\<rparr>), IntervalFires 1, IntervalFires 1,
           ApplySuccess (Some \<lparr>delegated = True, oid = None\<rparr>)] panel_init) = 5
   \<and> countdown
     (run [TrainSuccess (Some \<lparr>delegated = True, oid = None\<rparr>), IntervalFires 1, IntervalFires 1,
           ApplySuccess (Some \<lparr>delegated = True, oid = None\<rparr>), IntervalFires 1] panel_init) = 2
   \<and> showSuccessOverlay
     (run [TrainSuccess (Some \<lparr>delegated = True, oid = None\<rparr>), IntervalFires 1, IntervalFires 1,
           ApplySuccess (Some \<lparr>delegated = True, oid = None\<rparr>), IntervalFires 1, IntervalFires 2,
           IntervalFires 1, IntervalFires 2, IntervalFires 1] panel_init) = False
   \<and> intervals
     (run [TrainSuccess (Some \<lparr>delegated = True, oid = None\<rparr>), IntervalFires 1, IntervalFires 1,
           ApplySuccess (Some \<lparr>delegated = True, oid = None\<rparr>), IntervalFires 1, IntervalFires 2,
           IntervalFires 1, IntervalFires 2, IntervalFires 1] panel_init) = [(2, 3)]
   \<and> countdown
     (run [TrainSuccess (Some \<lparr>delegated = True, oid = None\<rparr>), IntervalFires 1, IntervalFires 1,
           ApplySuccess (Some \<lparr>delegated = True, oid = None\<rparr>), IntervalFires 1, IntervalFires 2,
           IntervalFires 1, IntervalFires 2, IntervalFires 1, IntervalFires 2] panel_init) = 2"
  by (simp add: panel_init_def handleTrainStart_def handleTrainSuccess_def handleApplySuccess_def
      is_delegated_def response_oid_def console_log_def setInterval_def clearInterval_def
      countdownTick_def Let_def)

lemma step_frame:
  assumes "\<not> delegatedSuccess e" and "\<And>h. e \<noteq> IntervalFires h"
  shows "intervals (step e s) = intervals s"
    and "showSuccessOverlay (step e s) = showSuccessOverlay s"
    and "countdown (step e s) = countdown s"
  using assms
  by (cases e;
      simp add: handleTrainStart_def handleTrainSuccess_def handleTrainError_def
        handleApplyStart_def handleApplySuccess_def handleApplyError_def
        console_log_def console_error_def Let_def)+

lemma tick_other: "intervals s = [(h, c)] \<Longrightarrow> h' \<noteq> h \<Longrightarrow> countdownTick h' s = s"
  by (simp add: countdownTick_def)

lemma run_expired:
  "intervals s = [] \<Longrightarrow> \<forall>e\<in>set es. \<not> delegatedSuccess e \<Longrightarrow>
     intervals (run es s) = []
     \<and> showSuccessOverlay (run es s) = showSuccessOverlay s
     \<and> countdown (run es s) = countdown s"
proof (induction es arbitrary: s)
  case Nil
  then show ?case by simp
next
  case (Cons e es)
  show ?case
  proof (cases "\<exists>h. e = IntervalFires h")
    case True
    then obtain h where "e = IntervalFires h" by blast
    with Cons show ?thesis by (simp add: tick_idle)
  next
    case False
    then have nt: "\<And>h. e \<noteq> IntervalFires h" by blast
    from Cons.prems have nd: "\<not> delegatedSuccess e" by simp
    note fr = step_frame [OF nd nt, of s]
    from Cons.prems fr have "intervals (step e s) = []" by simp
    from Cons.IH [OF this] Cons.prems fr show ?thesis by simp
  qed
qed

lemma run_countdown:
  "intervals s = [(h, c)] \<Longrightarrow> 0 < c \<Longrightarrow> showSuccessOverlay s \<Longrightarrow> countdown s = c \<Longrightarrow>
   \<forall>e\<in>set es. \<not> delegatedSuccess e \<Longrightarrow>
     countdown (run es s)
       = (if int (count_list es (IntervalFires h)) \<le> c
          then c - int (count_list es (IntervalFires h)) else 0)
     \<and> showSuccessOverlay (run es s) = (int (count_list es (IntervalFires h)) < c)
     \<and> intervals (run es s)
       = (if int (count_list es (IntervalFires h)) < c
          then [(h, c - int (count_list es (IntervalFires h)))] else [])"
proof (induction es arbitrary: s c)
  case Nil
  then show ?case by simp
next
  case (Cons e es)
  from Cons.prems have rest: "\<forall>e\<in>set es. \<not> delegatedSuccess e" by simp
  show ?case
  proof (cases "e = IntervalFires h")
    case True
    show ?thesis
    proof (cases "c = 1")
      case True
      with Cons.prems have one: "intervals s = [(h, 1)]" by simp
      note last = tick_last [OF one]
      from run_expired [OF last(1) rest] last \<open>e = IntervalFires h\<close> \<open>c = 1\<close>
      show ?thesis by simp
    next
      case False
      note tk = tick_running [OF Cons.prems(1) False]
      from False Cons.prems have pos: "0 < c - 1" by simp
      from tk(3) Cons.prems have ov: "showSuccessOverlay (countdownTick h s)" by simp
      from Cons.IH [OF tk(1) pos ov tk(2) rest] \<open>e = IntervalFires h\<close>
      show ?thesis by (simp add: algebra_simps)
    qed
  next
    case False
    show ?thesis
    proof (cases "\<exists>h'. e = IntervalFires h'")
      case True
      then obtain h' where e: "e = IntervalFires h'" by blast
      with False have "h' \<noteq> h" by simp
      with tick_other [OF Cons.prems(1) this] e
      have "step e s = s" by simp
      with Cons.IH [OF Cons.prems(1-4) rest] False show ?thesis by simp
    next
      case nt: False
      then have nt': "\<And>h. e \<noteq> IntervalFires h" by blast
      from Cons.prems have nd: "\<not> delegatedSuccess e" by simp
      note fr = step_frame [OF nd nt', of s]
      from fr Cons.prems have
        "intervals (step e s) = [(h, c)]" "showSuccessOverlay (step e s)" "countdown (step e s) = c"
        by simp_all
      from Cons.IH [OF this(1) Cons.prems(2) this(2) this(3) rest] False show ?thesis by simp
    qed
  qed
qed

lemma deliver_delegated_train:
  "deliver trainButton (hostSubmit opt (Delegated job)) (w, s)
     = (w\<lparr>showNoTargetsWarning := False\<rparr>,
        handleTrainSuccess (Some \<lparr> delegated = True, oid = job \<rparr>) (handleTrainStart opt s))"
  by (simp add: hostSubmit_def handleOptionSelected_def trainButton_def)

lemma deliver_delegated_apply:
  "deliver applyButton (hostSubmit opt (Delegated job)) (w, s)
     = (w\<lparr>showNoTargetsWarning := False\<rparr>,
        handleApplySuccess (Some \<lparr> delegated = True, oid = job \<rparr>) (handleApplyStart opt s))"
  by (simp add: hostSubmit_def handleOptionSelected_def applyButton_def)

text \<open>
  Claim C5, amended. When a submission resolves as delegated success, the host button
  calls the option-selected callback and then the success callback. If no countdown
  interval is running when these are handled, the pending flag is cleared and the overlay
  is visible with the countdown at 5. From then on, as long as no further delegated
  success is handled, and whatever else happens (ticks of this or of any other handle,
  clicks on the overlay, option selections, failures and immediate successes of either
  button): when \<open>k\<close> ticks of the new interval have happened the countdown is \<open>5 - k\<close>
  for \<open>k \<le> 5\<close>, so each tick decrements it by exactly 1; the overlay is visible exactly
  while \<open>k < 5\<close>; at the fifth tick the countdown is 0, the overlay is hidden and the
  interval is cleared, and nothing decrements the countdown further. No other event hides
  the overlay: there is no manual dismissal. The same holds for the Apply Model button.
\<close>

theorem delegated_success_countdown:
  assumes "intervals s = []" and "\<forall>e\<in>set es. \<not> delegatedSuccess e"
  shows "hostSubmit opt (Delegated job)
           = [CallOptionSelected opt, CallSuccess (Some \<lparr> delegated = True, oid = job \<rparr>)]
     \<and> \<not> isTraining (snd (deliver trainButton (hostSubmit opt (Delegated job)) (w, s)))
     \<and> showSuccessOverlay (snd (deliver trainButton (hostSubmit opt (Delegated job)) (w, s)))
     \<and> countdown (snd (deliver trainButton (hostSubmit opt (Delegated job)) (w, s))) = 5
     \<and> successMessage (snd (deliver trainButton (hostSubmit opt (Delegated job)) (w, s)))
         = ''Training successfully scheduled!''
     \<and> countdown (run es (snd (deliver trainButton (hostSubmit opt (Delegated job)) (w, s))))
         = (if count_list es (IntervalFires (nextInterval s)) \<le> 5
            then 5 - int (count_list es (IntervalFires (nextInterval s))) else 0)
     \<and> showSuccessOverlay
           (run es (snd (deliver trainButton (hostSubmit opt (Delegated job)) (w, s))))
         = (count_list es (IntervalFires (nextInterval s)) < 5)
     \<and> intervals (run es (snd (deliver trainButton (hostSubmit opt (Delegated job)) (w, s))))
         = (if count_list es (IntervalFires (nextInterval s)) < 5
            then [(nextInterval s, 5 - int (count_list es (IntervalFires (nextInterval s))))]
            else [])
     \<and> \<not> isApplying (snd (deliver applyButton (hostSubmit opt (Delegated job)) (w, s)))
     \<and> showSuccessOverlay (snd (deliver applyButton (hostSubmit opt (Delegated job)) (w, s)))
     \<and> countdown (snd (deliver applyButton (hostSubmit opt (Delegated job)) (w, s))) = 5
     \<and> successMessage (snd (deliver applyButton (hostSubmit opt (Delegated job)) (w, s)))
         = ''Model application successfully scheduled!''
     \<and> countdown (run es (snd (deliver applyButton (hostSubmit opt (Delegated job)) (w, s))))
         = (if count_list es (IntervalFires (nextInterval s)) \<le> 5
            then 5 - int (count_list es (IntervalFires (nextInterval s))) else 0)
     \<and> showSuccessOverlay
           (run es (snd (deliver applyButton (hostSubmit opt (Delegated job)) (w, s))))
         = (count_list es (IntervalFires (nextInterval s)) < 5)
     \<and> intervals (run es (snd (deliver applyButton (hostSubmit opt (Delegated job)) (w, s))))
         = (if count_list es (IntervalFires (nextInterval s)) < 5
            then [(nextInterval s, 5 - int (count_list es (IntervalFires (nextInterval s))))]
            else [])"
proof -
  let ?h = "nextInterval s"
  let ?r = "\<lparr> delegated = True, oid = job \<rparr>"
  let ?t1 = "handleTrainSuccess (Some ?r) (handleTrainStart opt s)"
  let ?a1 = "handleApplySuccess (Some ?r) (handleApplyStart opt s)"
  have order: "hostSubmit opt (Delegated job) = [CallOptionSelected opt, CallSuccess (Some ?r)]"
    by (simp add: hostSubmit_def)
  have t1: "intervals ?t1 = [(?h, 5)]" "showSuccessOverlay ?t1" "countdown ?t1 = 5"
    "\<not> isTraining ?t1" "successMessage ?t1 = ''Training successfully scheduled!''"
    using assms(1)
    by (simp_all add: train_success_delegated handleTrainStart_def console_log_def)
  have a1: "intervals ?a1 = [(?h, 5)]" "showSuccessOverlay ?a1" "countdown ?a1 = 5"
    "\<not> isApplying ?a1" "successMessage ?a1 = ''Model application successfully scheduled!''"
    using assms(1)
    by (simp_all add: apply_success_delegated handleApplyStart_def console_log_def)
  have five: "(0::int) < 5" by simp
  note tk = run_countdown [OF t1(1) five t1(2) t1(3) assms(2)]
  note ak = run_countdown [OF a1(1) five a1(2) a1(3) assms(2)]
  show ?thesis
    unfolding deliver_delegated_train deliver_delegated_apply snd_conv
    using order [unfolded deliver_delegated_train] t1(2-5) a1(2-5) tk ak
    by simp
qed

theorem delegated_success_countdown_witness:
  "hostSubmit \<lparr>isDelegated = True\<rparr> (Delegated (Some ''65f0''))
     = [CallOptionSelected \<lparr>isDelegated = True\<rparr>,
        CallSuccess (Some \<lparr> delegated = True, oid = Some ''65f0'' \<rparr>)]
   \<and> countdown
       (run [IntervalFires 1, OverlayClicked, IntervalFires 1, ApplyStart \<lparr>isDelegated = False\<rparr>,
             IntervalFires 7, IntervalFires 1, ApplyError ''no worker'']
          (snd (deliver trainButton
                  (hostSubmit \<lparr>isDelegated = True\<rparr> (Delegated (Some ''65f0'')))
                  (probe_init, panel_init)))) = 2
   \<and> showSuccessOverlay
       (run [IntervalFires 1, OverlayClicked, IntervalFires 1, ApplyStart \<lparr>isDelegated = False\<rparr>,
             IntervalFires 7, IntervalFires 1, ApplyError ''no worker'']
          (snd (deliver trainButton
                  (hostSubmit \<lparr>isDelegated = True\<rparr> (Delegated (Some ''65f0'')))
                  (probe_init, panel_init))))
   \<and> intervals
       (run [IntervalFires 1, OverlayClicked, IntervalFires 1, ApplyStart \<lparr>isDelegated = False\<rparr>,
             IntervalFires 7, IntervalFires 1, ApplyError ''no worker'']
          (snd (deliver trainButton
                  (hostSubmit \<lparr>isDelegated = True\<rparr> (Delegated (Some ''65f0'')))
                  (probe_init, panel_init)))) = [(1, 2)]"
proof -
  have h1: "intervals panel_init = []" and n1: "nextInterval panel_init = 1"
    by (simp_all add: panel_init_def)
  have h2: "\<forall>e\<in>set [IntervalFires 1, OverlayClicked, IntervalFires 1,
              ApplyStart \<lparr>isDelegated = False\<rparr>, IntervalFires 7, IntervalFires 1,
              ApplyError ''no worker'']. \<not> delegatedSuccess e"
    by simp
  note th = delegated_success_countdown
    [OF h1 h2, of "\<lparr>isDelegated = True\<rparr>" "Some ''65f0''" probe_init]
  show ?thesis
  proof (rule conjI)
    show "hostSubmit \<lparr>isDelegated = True\<rparr> (Delegated (Some ''65f0''))
            = [CallOptionSelected \<lparr>isDelegated = True\<rparr>,
               CallSuccess (Some \<lparr> delegated = True, oid = Some ''65f0'' \<rparr>)]"
      by (rule th [THEN conjunct1])
  next
    from th [THEN conjunct2]
    show "countdown
       (run [IntervalFires 1, OverlayClicked, IntervalFires 1, ApplyStart \<lparr>isDelegated = False\<rparr>,
             IntervalFires 7, IntervalFires 1, ApplyError ''no worker'']
          (snd (deliver trainButton
                  (hostSubmit \<lparr>isDelegated = True\<rparr> (Delegated (Some ''65f0'')))
                  (probe_init, panel_init)))) = 2
      \<and> showSuccessOverlay
       (run [IntervalFires 1, OverlayClicked, IntervalFires 1, ApplyStart \<lparr>isDelegated = False\<rparr>,
             IntervalFires 7, IntervalFires 1, ApplyError ''no worker'']
          (snd (deliver trainButton
                  (hostSubmit \<lparr>isDelegated = True\<rparr> (Delegated (Some ''65f0'')))
                  (probe_init, panel_init))))
      \<and> intervals
       (run [IntervalFires 1, OverlayClicked, IntervalFires 1, ApplyStart \<lparr>isDelegated = False\<rparr>,
             IntervalFires 7, IntervalFires 1, ApplyError ''no worker'']
          (snd (deliver trainButton
                  (hostSubmit \<lparr>isDelegated = True\<rparr> (Delegated (Some ''65f0'')))
                  (probe_init, panel_init)))) = [(1, 2)]"
      by (simp add: n1 del: run.simps)
  qed
qed

lemma deliver_failure_train:
  "deliver trainButton (hostSubmit opt (Failure err)) (w, s)
     = (w\<lparr>showNoTargetsWarning := False\<rparr>, handleTrainError err (handleTrainStart opt s))"
  by (simp add: hostSubmit_def handleOptionSelected_def trainButton_def)

lemma deliver_failure_apply:
  "deliver applyButton (hostSubmit opt (Failure err)) (w, s)
     = (w\<lparr>showNoTargetsWarning := False\<rparr>, handleApplyError err (handleApplyStart opt s))"
  by (simp add: hostSubmit_def handleOptionSelected_def applyButton_def)

text \<open>
  Claim C7. For a submission whose provider fails, the host button's calls are the
  option-selected callback followed by the error callback, so the error callback is
  called exactly once, with the failure, and the success callback is not called. The
  wrapper passes the call on to the panel's error handler, after which the console has
  exactly one new error entry carrying the failure, the pending flag of that button is
  cleared (the button is enabled again), and the overlay, its message, the countdown and
  the running intervals are as before the submission: no notification is created. This
  holds for both buttons.
\<close>

theorem provider_failure_returns_to_idle:
  "hostSubmit opt (Failure err) = [CallOptionSelected opt, CallError err]
   \<and> filter isErrorCall (hostSubmit opt (Failure err)) = [CallError err]
   \<and> \<not> isTraining (snd (deliver trainButton (hostSubmit opt (Failure err)) (w, s)))
   \<and> console (snd (deliver trainButton (hostSubmit opt (Failure err)) (w, s)))
       = console (handleTrainStart opt s) @ [ConsoleError [Text ''Training failed:'', ErrorArg err]]
   \<and> console (handleTrainStart opt s)
       = console s @ [ConsoleLog [Text (''Training started with ''
              @ (if isDelegated opt then ''delegated'' else ''immediate'') @ '' execution'')]]
   \<and> showSuccessOverlay (snd (deliver trainButton (hostSubmit opt (Failure err)) (w, s)))
       = showSuccessOverlay s
   \<and> successMessage (snd (deliver trainButton (hostSubmit opt (Failure err)) (w, s)))
       = successMessage s
   \<and> countdown (snd (deliver trainButton (hostSubmit opt (Failure err)) (w, s))) = countdown s
   \<and> intervals (snd (deliver trainButton (hostSubmit opt (Failure err)) (w, s))) = intervals s
   \<and> nextInterval (snd (deliver trainButton (hostSubmit opt (Failure err)) (w, s)))
       = nextInterval s
   \<and> trainDisabled (isTraining (snd (deliver trainButton (hostSubmit opt (Failure err)) (w, s)))) st
       = (\<not> isReadyToTrain st)
   \<and> \<not> isApplying (snd (deliver applyButton (hostSubmit opt (Failure err)) (w, s)))
   \<and> console (snd (deliver applyButton (hostSubmit opt (Failure err)) (w, s)))
       = console (handleApplyStart opt s)
           @ [ConsoleError [Text ''Model application failed:'', ErrorArg err]]
   \<and> console (handleApplyStart opt s)
       = console s @ [ConsoleLog [Text (''Model application started with ''
              @ (if isDelegated opt then ''delegated'' else ''immediate'') @ '' execution'')]]
   \<and> showSuccessOverlay (snd (deliver applyButton (hostSubmit opt (Failure err)) (w, s)))
       = showSuccessOverlay s
   \<and> successMessage (snd (deliver applyButton (hostSubmit opt (Failure err)) (w, s)))
       = successMessage s
   \<and> countdown (snd (deliver applyButton (hostSubmit opt (Failure err)) (w, s))) = countdown s
   \<and> intervals (snd (deliver applyButton (hostSubmit opt (Failure err)) (w, s))) = intervals s
   \<and> nextInterval (snd (deliver applyButton (hostSubmit opt (Failure err)) (w, s)))
       = nextInterval s
   \<and> \<not> applyDisabled (snd (deliver applyButton (hostSubmit opt (Failure err)) (w, s)))"
  unfolding deliver_failure_train deliver_failure_apply snd_conv
  by (simp add: hostSubmit_def handleTrainStart_def handleTrainError_def handleApplyStart_def
      handleApplyError_def console_log_def console_error_def trainDisabled_def applyDisabled_def)

section \<open>Properties of the menu check\<close>

lemma click_while_checking: "isCheckingMenu s \<Longrightarrow> wrapperClicked disabled s = s"
  by (simp add: wrapperClicked_def handleWrapperClick_def rerender_def)

lemma click_starts_poll:
  assumes "\<not> isCheckingMenu s" and "timeouts s = []" and "cleanupStop s = None"
  shows "wrapperClicked False s =
     s\<lparr>isCheckingMenu := True, checkTimeoutRef := Some (nextTimeout s),
       timeouts := [(nextTimeout s, CheckForEmptyMenu, 100), (nextTimeout s + 1, StopChecking, 500)],
       nextTimeout := nextTimeout s + 2, cleanupStop := Some (nextTimeout s + 1)\<rparr>"
  using assms
  by (simp add: wrapperClicked_def handleWrapperClick_def rerender_def effectCleanup_def
      menuCheckEffect_def setTimeout_def Let_def)

lemma owned_init: "timers_owned probe_init"
  by (simp add: timers_owned_def probe_init_def)

lemma owned_click:
  assumes "timers_owned s"
  shows "timers_owned (wrapperClicked disabled s)"
proof (cases "isCheckingMenu s")
  case True
  with assms show ?thesis by (simp add: click_while_checking)
next
  case False
  with assms have idle: "timeouts s = []" "cleanupStop s = None"
    by (simp_all add: timers_owned_def)
  show ?thesis
  proof (cases disabled)
    case True
    with assms show ?thesis
      by (simp add: wrapperClicked_def handleWrapperClick_def rerender_def)
  next
    case False
    then show ?thesis
      using click_starts_poll [OF \<open>\<not> isCheckingMenu s\<close> idle]
      by (simp add: timers_owned_def)
  qed
qed

lemma owned_option:
  "timers_owned s \<Longrightarrow> timers_owned (fst (handleOptionSelected props option (s, p)))"
  by (cases "isCheckingMenu s")
    (auto simp add: timers_owned_def handleOptionSelected_def split: option.splits)

lemma owned_check:
  assumes chk: "isCheckingMenu s" and st: "cleanupStop s = Some stop"
    and own: "list_all (\<lambda>(i, cb, d). (cb = StopChecking \<and> i = stop)
                 \<or> (cb = CheckForEmptyMenu \<and> checkTimeoutRef s = Some i)) (timeouts s)"
    and pend: "(h, CheckForEmptyMenu, d) \<in> set (timeouts s)"
  shows "timers_owned (rerender True (checkForEmptyMenu disabled menus (clearTimeout h s)))"
proof -
  from own pend have ref: "checkTimeoutRef s = Some h"
    by (auto simp add: list_all_iff)
  show ?thesis
  proof (cases "firstVisible menus")
    case None
    with chk st ref own show ?thesis
      by (auto simp add: checkForEmptyMenu_def clearTimeout_def setTimeout_def rerender_def
          timers_owned_def list_all_iff)
  next
    case (Some m)
    with chk st ref own show ?thesis
      by (auto simp add: checkForEmptyMenu_def handleWrapperClick_def clearTimeout_def
          rerender_def effectCleanup_def menuCheckEffect_def timers_owned_def list_all_iff
          filter_empty_conv Let_def)
  qed
qed

lemma owned_stop:
  assumes chk: "isCheckingMenu s" and st: "cleanupStop s = Some stop"
    and own: "list_all (\<lambda>(i, cb, d). (cb = StopChecking \<and> i = stop)
                 \<or> (cb = CheckForEmptyMenu \<and> checkTimeoutRef s = Some i)) (timeouts s)"
    and pend: "(h, StopChecking, d) \<in> set (timeouts s)"
  shows "timers_owned (rerender True (stopChecking (clearTimeout h s)))"
proof -
  from own pend have "h = stop"
    by (auto simp add: list_all_iff)
  with chk st own show ?thesis
    by (auto simp add: stopChecking_def clearTimeout_def rerender_def effectCleanup_def
        menuCheckEffect_def timers_owned_def list_all_iff filter_empty_conv Let_def
        split: option.splits)
qed

lemma owned_fires:
  assumes "timers_owned s"
  shows "timers_owned (timeoutFires h disabled menus s)"
proof (cases "map_of (timeouts s) h")
  case None
  with assms show ?thesis by (simp add: timeoutFires_def)
next
  case (Some p)
  obtain cb d where p: "p = (cb, d)" by (cases p)
  from Some p have pend: "(h, cb, d) \<in> set (timeouts s)"
    by (simp add: map_of_SomeD)
  then have chk: "isCheckingMenu s"
    using assms by (auto simp add: timers_owned_def split: if_splits)
  with assms obtain stop where st: "cleanupStop s = Some stop"
    and own: "list_all (\<lambda>(i, cb, d). (cb = StopChecking \<and> i = stop)
                 \<or> (cb = CheckForEmptyMenu \<and> checkTimeoutRef s = Some i)) (timeouts s)"
    by (auto simp add: timers_owned_def split: option.splits)
  show ?thesis
  proof (cases cb)
    case CheckForEmptyMenu
    with owned_check [OF chk st own, of h d disabled menus] pend Some p chk show ?thesis
      by (simp add: timeoutFires_def)
  next
    case StopChecking
    with owned_stop [OF chk st own, of h d] pend Some p chk show ?thesis
      by (simp add: timeoutFires_def)
  qed
qed

lemma reachable_owned: "reachable s \<Longrightarrow> timers_owned s"
  by (induction rule: reachable.induct)
    (simp_all add: owned_init owned_click owned_fires owned_option)

lemma fires_not_pending:
  "map_of (timeouts s) h = None \<Longrightarrow> timeoutFires h disabled menus s = s"
  by (simp add: timeoutFires_def)

text \<open>
  Claim C6, as stated: a second trigger cancels the poll of the first. It fails: a second
  click while the first poll is outstanding leaves the state as it is, the check timeout
  of the first trigger (handle 1) is still pending, and when it fires on a visible menu
  without items the warning of the first poll is shown after the second trigger.
\<close>

theorem second_trigger_counterexample:
  "wrapperClicked False (wrapperClicked False probe_init) = wrapperClicked False probe_init
   \<and> timeouts (wrapperClicked False (wrapperClicked False probe_init))
     = [(1, CheckForEmptyMenu, 100), (2, StopChecking, 500)]
   \<and> showNoTargetsWarning
       (timeoutFires 1 False
          [\<lparr>rectWidth = 220, rectHeight = 48, menuItems = 0, hasBackdrop = True\<rparr>]
          (wrapperClicked False (wrapperClicked False probe_init))) = True"
  by (simp add: wrapperClicked_def handleWrapperClick_def rerender_def effectCleanup_def
      menuCheckEffect_def setTimeout_def clearTimeout_def timeoutFires_def checkForEmptyMenu_def
      probe_init_def Let_def)

text \<open>
  Claim C6, amended. In every state the wrapper can reach: a trigger while a poll is
  outstanding changes nothing, so that poll is not cancelled, no second poll starts and
  the outstanding poll's outcome is the one observed; when no poll is outstanding, no
  timeout of an earlier poll is pending (the firing of any handle changes nothing, so no
  stale warning can appear), and a trigger starts a new poll with one check timeout and
  one stop timeout.
\<close>

theorem trigger_while_polling:
  assumes "reachable s"
  shows "(isCheckingMenu s \<longrightarrow> wrapperClicked disabled s = s)
     \<and> (\<not> isCheckingMenu s \<longrightarrow>
          timeouts s = []
          \<and> timeoutFires h disabled menus s = s
          \<and> isCheckingMenu (wrapperClicked False s)
          \<and> timeouts (wrapperClicked False s)
              = [(nextTimeout s, CheckForEmptyMenu, 100), (nextTimeout s + 1, StopChecking, 500)])"
proof (cases "isCheckingMenu s")
  case True
  then show ?thesis by (simp add: click_while_checking)
next
  case False
  from reachable_owned [OF assms] False
  have idle: "timeouts s = []" "cleanupStop s = None"
    by (simp_all add: timers_owned_def)
  from idle(1) have "timeoutFires h disabled menus s = s"
    by (simp add: fires_not_pending)
  with False idle(1) click_starts_poll [OF False idle] show ?thesis by simp
qed

theorem trigger_while_polling_witness:
  "wrapperClicked False
       (timeoutFires 1 False
          [\<lparr>rectWidth = 220, rectHeight = 48, menuItems = 0, hasBackdrop = True\<rparr>]
          (wrapperClicked False probe_init))
     = timeoutFires 1 False
          [\<lparr>rectWidth = 220, rectHeight = 48, menuItems = 0, hasBackdrop = True\<rparr>]
          (wrapperClicked False probe_init)
   \<and> timeouts (timeoutFires 1 False
                 [\<lparr>rectWidth = 220, rectHeight = 48, menuItems = 3, hasBackdrop = True\<rparr>]
                 (wrapperClicked False probe_init)) = []
   \<and> timeouts (wrapperClicked False
                 (timeoutFires 1 False
                    [\<lparr>rectWidth = 220, rectHeight = 48, menuItems = 3, hasBackdrop = True\<rparr>]
                    (wrapperClicked False probe_init)))
       = [(3, CheckForEmptyMenu, 100), (4, StopChecking, 500)]"
proof -
  let ?empty = "[\<lparr>rectWidth = 220, rectHeight = 48, menuItems = 0, hasBackdrop = True\<rparr>]"
  let ?full = "[\<lparr>rectWidth = 220, rectHeight = 48, menuItems = 3, hasBackdrop = True\<rparr>]"
  have r0: "reachable (wrapperClicked False probe_init)"
    by (rule reachable.click [OF reachable.mounted])
  have r1: "reachable (timeoutFires 1 False ?empty (wrapperClicked False probe_init))"
    by (rule reachable.fires [OF r0])
  have r2: "reachable (timeoutFires 1 False ?full (wrapperClicked False probe_init))"
    by (rule reachable.fires [OF r0])
  have c1: "isCheckingMenu (timeoutFires 1 False ?empty (wrapperClicked False probe_init))"
    by (simp add: wrapperClicked_def handleWrapperClick_def rerender_def effectCleanup_def
        menuCheckEffect_def setTimeout_def clearTimeout_def timeoutFires_def
        checkForEmptyMenu_def probe_init_def Let_def)
  have c2: "\<not> isCheckingMenu (timeoutFires 1 False ?full (wrapperClicked False probe_init))"
    "nextTimeout (timeoutFires 1 False ?full (wrapperClicked False probe_init)) = 3"
    by (simp_all add: wrapperClicked_def handleWrapperClick_def rerender_def effectCleanup_def
        menuCheckEffect_def setTimeout_def clearTimeout_def timeoutFires_def
        checkForEmptyMenu_def probe_init_def Let_def)
  from trigger_while_polling [OF r1, of False] trigger_while_polling [OF r2] c1 c2
  show ?thesis by simp
qed

end
